theory Spec2Isabelle
  imports Complex_Main "HOL-Library.Word"
begin

section \<open>Platform values\<close>

text \<open>
  The module under study is the last revision of the Dhan socket module
  (\<^verbatim>\<open>lib/dhanSocket.ts\<close>, the third part of \<^verbatim>\<open>src/lib/firebase.ts\<close>): one WebSocket to
  the market feed, a binary tick decoder, a latest-value store and a fan-out to
  server-sent-event clients. Its module-level variables become one record, every function
  takes it and returns it updated. Console output is left out.

  \<^verbatim>\<open>throw new Error(msg)\<close> is the value \<open>Inl (Error msg)\<close> in a function that
  changes nothing, and \<open>Throws (Error msg) s\<close> in one that does: \<open>s\<close> is the state
  the module is in when the exception leaves the function.
\<close>

datatype error = Error string

text \<open>
  A JavaScript number as \<^verbatim>\<open>readFloatLE\<close> produces it. Every binary32 value is a
  binary64 value, so the finite ones are exact rationals (\<open>-0\<close>, which
  \<^verbatim>\<open>JSON.stringify\<close> prints as \<open>0\<close>, is \<open>Fin 0\<close>).
\<close>

datatype number = Fin rat | PosInf | NegInf | NaN

text \<open>
  An optional string (\<^verbatim>\<open>string | undefined\<close>) is falsy when it is \<^verbatim>\<open>undefined\<close> or empty.
\<close>

definition falsy :: "string option \<Rightarrow> bool" where
  "falsy s = (s = None \<or> s = Some [])"

text \<open>
  A JavaScript \<^verbatim>\<open>Map\<close> keeps its keys in insertion order: \<^verbatim>\<open>set\<close> on a present key
  replaces the value where it stands, on an absent key appends.
\<close>

fun map_get :: "'k \<Rightarrow> ('k \<times> 'v) list \<Rightarrow> 'v option" where
  "map_get k [] = None"
| "map_get k ((k', v) # m) = (if k = k' then Some v else map_get k m)"

fun map_set :: "'k \<Rightarrow> 'v \<Rightarrow> ('k \<times> 'v) list \<Rightarrow> ('k \<times> 'v) list" where
  "map_set k v [] = [(k, v)]"
| "map_set k v ((k', v') # m) = (if k = k' then (k, v) # m else (k', v') # map_set k v m)"

fun map_delete :: "'k \<Rightarrow> ('k \<times> 'v) list \<Rightarrow> ('k \<times> 'v) list" where
  "map_delete k [] = []"
| "map_delete k ((k', v) # m) = (if k = k' then map_delete k m else (k', v) # map_delete k m)"

definition map_values :: "('k \<times> 'v) list \<Rightarrow> 'v list" where
  "map_values m = map snd m"

text \<open>\<^verbatim>\<open>String(n)\<close> of a non-negative integer: its decimal digits.\<close>

definition digit :: "nat \<Rightarrow> char" where
  "digit d = ''0123456789'' ! d"

function String_of :: "nat \<Rightarrow> string" where
  "String_of n = (if n < 10 then [digit n] else String_of (n div 10) @ [digit (n mod 10)])"
  by pat_completeness auto
termination
  by (relation "measure id") auto

declare String_of.simps [simp del]

subsection \<open>Buffer reads\<close>

text \<open>
  A \<^verbatim>\<open>Buffer\<close> is a list of bytes. A read that leaves the buffer throws
  \<^verbatim>\<open>RangeError\<close>: \<open>None\<close>.
\<close>

type_synonym buffer = "8 word list"

definition readUInt8 :: "buffer \<Rightarrow> nat \<Rightarrow> nat option" where
  "readUInt8 buf off = (if off < length buf then Some (unat (buf ! off)) else None)"

definition readUInt32LE :: "buffer \<Rightarrow> nat \<Rightarrow> nat option" where
  "readUInt32LE buf off =
     (if off + 4 \<le> length buf
      then Some (unat (buf ! off) + 2 ^ 8 * unat (buf ! (off + 1))
                 + 2 ^ 16 * unat (buf ! (off + 2)) + 2 ^ 24 * unat (buf ! (off + 3)))
      else None)"

text \<open>The value of an IEEE-754 binary32 bit pattern: 1 sign bit, 8 exponent bits, 23 fraction bits.\<close>

definition float32_value :: "nat \<Rightarrow> number" where
  "float32_value bits =
     (let sign = (if bits div 2 ^ 31 mod 2 = 1 then - 1 else 1 :: rat);
          e = bits div 2 ^ 23 mod 256;
          m = bits mod 2 ^ 23
      in if e = 255 then (if m = 0 then (if sign < 0 then NegInf else PosInf) else NaN)
         else if e = 0 then Fin (sign * of_nat m / 2 ^ 149)
         else if 150 \<le> e then Fin (sign * of_nat ((2 ^ 23 + m) * 2 ^ (e - 150)))
         else Fin (sign * of_nat (2 ^ 23 + m) / 2 ^ (150 - e)))"

definition readFloatLE :: "buffer \<Rightarrow> nat \<Rightarrow> number option" where
  "readFloatLE buf off = map_option float32_value (readUInt32LE buf off)"

section \<open>Data model\<close>

text \<open>
  \<^verbatim>\<open>DhanInstrument\<close> is declared in \<^verbatim>\<open>stockCodes.ts\<close>; the validation tests its
  \<^verbatim>\<open>securityId\<close> and \<^verbatim>\<open>exchange\<close> for falsiness, so both can be missing here.
\<close>

record DhanInstrument =
  inst_symbol :: string
  inst_exchange :: "string option"
  inst_securityId :: "string option"

text \<open>The result of \<^verbatim>\<open>parseBinaryTick\<close>, and \<^verbatim>\<open>TickData\<close>, which adds the two labels.\<close>

record parsed_tick =
  messageType :: nat
  securityId :: nat
  price :: number
  timestamp :: nat

record TickData = parsed_tick +
  symbol :: string
  messageTypeLabel :: string

text \<open>The two JSON payloads sent to the feed, before \<^verbatim>\<open>JSON.stringify\<close>.\<close>

record instrument_ref =
  ExchangeSegment :: "string option"
  SecurityId :: "string option"

datatype request =
    Subscribe (RequestCode: nat) (InstrumentCount: nat) (InstrumentList: "instrument_ref list")
  | SetMode (RequestCode: nat) (Mode: nat)

text \<open>
  The two server-sent events, before encoding, and the stream controller of one client:
  \<^verbatim>\<open>enqueue\<close> throws once the stream is closed.
\<close>

datatype sse_message = Initial "TickData list" | Tick TickData

record controller =
  stream_closed :: bool
  chunks :: "sse_message list"

definition enqueue :: "sse_message \<Rightarrow> controller \<Rightarrow> controller option" where
  "enqueue msg c = (if stream_closed c then None else Some (c\<lparr>chunks := chunks c @ [msg]\<rparr>))"

datatype readyState = CONNECTING | OPEN | CLOSING | CLOSED

text \<open>
  The module's variables, then what it acts on outside itself: the stream controllers
  (by reference), the delays handed to \<^verbatim>\<open>setTimeout\<close> (the handle of a timer is its
  position), the handles handed to \<^verbatim>\<open>clearTimeout\<close>, and the payloads handed to
  \<^verbatim>\<open>ws.send\<close>. \<open>ws\<close> holds the ready state of the current socket object.
\<close>

record module_state =
  ws :: "readyState option"
  reconnectTimer :: "nat option"
  isConnecting :: bool
  reconnectDelay :: rat
  tickDataStore :: "(nat \<times> TickData) list"
  sseClients :: "(string \<times> nat) list"
  STOCK_INSTRUMENTS :: "DhanInstrument list"
  SECURITY_ID_TO_SYMBOL :: "(string option \<times> string) list"
  SECURITY_ID_TO_EXCHANGE :: "(string option \<times> string option) list"
  controllers :: "nat \<Rightarrow> controller"
  timeouts :: "rat list"
  cleared :: "nat list"
  sent :: "request list"

text \<open>The credentials read from the environment when the module loads.\<close>

record credentials =
  clientId :: "string option"
  accessToken :: "string option"

text \<open>
  How a function that changes the state ends: it returns, or it throws; either way the
  assignments and sends it has made so far stay made.
\<close>

datatype outcome = Normal module_state | Throws error module_state

fun state_of :: "outcome \<Rightarrow> module_state" where
  "state_of (Normal s) = s"
| "state_of (Throws e s) = s"

fun thrown :: "outcome \<Rightarrow> error option" where
  "thrown (Normal s) = None"
| "thrown (Throws e s) = Some e"

section \<open>Tick store and broadcaster\<close>

datatype tick_result = Record "TickData option" | Store "(nat \<times> TickData) list"

text \<open>\<^verbatim>\<open>getTickData(securityId?)\<close>: the test \<^verbatim>\<open>if (securityId)\<close> is false for \<^verbatim>\<open>undefined\<close> and for \<open>0\<close>.\<close>

definition getTickData :: "nat option \<Rightarrow> module_state \<Rightarrow> tick_result" where
  "getTickData sid s =
     (if sid \<noteq> None \<and> sid \<noteq> Some 0
      then Record (map_get (the sid) (tickDataStore s))
      else Store (tickDataStore s))"

text \<open>
  \<^verbatim>\<open>subscribeToTicks(controller)\<close>, with the random identifier as an input; the function
  it returns is \<open>unsubscribe id\<close>.
\<close>

definition subscribeToTicks :: "string \<Rightarrow> nat \<Rightarrow> module_state \<Rightarrow> module_state" where
  "subscribeToTicks ident c s =
     (let s1 = s\<lparr>sseClients := map_set ident c (sseClients s)\<rparr>;
          initialData = map_values (tickDataStore s1)
      in if length initialData > 0
         then (case enqueue (Initial initialData) (controllers s1 c) of
                 Some c' \<Rightarrow> s1\<lparr>controllers := (controllers s1)(c := c')\<rparr>
               | None \<Rightarrow> s1)
         else s1)"

definition unsubscribe :: "string \<Rightarrow> module_state \<Rightarrow> module_state" where
  "unsubscribe ident s = s\<lparr>sseClients := map_delete ident (sseClients s)\<rparr>"

text \<open>
  \<^verbatim>\<open>broadcastTickData\<close>: one pass over the clients in registration order, collecting
  the identifiers whose \<^verbatim>\<open>enqueue\<close> threw, then their removal.
\<close>

fun broadcast_pass ::
  "sse_message \<Rightarrow> (string \<times> nat) list \<Rightarrow> (nat \<Rightarrow> controller) \<Rightarrow> (nat \<Rightarrow> controller) \<times> string list" where
  "broadcast_pass msg [] h = (h, [])"
| "broadcast_pass msg ((ident, c) # cs) h =
     (case enqueue msg (h c) of
        Some c' \<Rightarrow> broadcast_pass msg cs (h(c := c'))
      | None \<Rightarrow> (let (h', toRemove) = broadcast_pass msg cs h in (h', ident # toRemove)))"

definition broadcastTickData :: "TickData \<Rightarrow> module_state \<Rightarrow> module_state" where
  "broadcastTickData tickData s =
     (let (h, toRemove) = broadcast_pass (Tick tickData) (sseClients s) (controllers s)
      in s\<lparr>controllers := h, sseClients := fold map_delete toRemove (sseClients s)\<rparr>)"

section \<open>Validation and market hours\<close>

definition validateEnv :: "credentials \<Rightarrow> error + unit" where
  "validateEnv env =
     (if falsy (clientId env) \<or> falsy (accessToken env)
      then Inl (Error ''DHAN_CLIENT_ID and DHAN_ACCESS_TOKEN must be set'')
      else Inr ())"

text \<open>The test of the validation: an instrument without security id or without segment.\<close>

definition malformed :: "DhanInstrument \<Rightarrow> bool" where
  "malformed inst = (falsy (inst_securityId inst) \<or> falsy (inst_exchange inst))"

definition validateInstruments :: "module_state \<Rightarrow> error + unit" where
  "validateInstruments s =
     (let invalid = filter malformed (STOCK_INSTRUMENTS s)
      in if length invalid > 0 then Inl (Error ''Invalid Dhan instrument mapping'') else Inr ())"

text \<open>
  An instant is a number of milliseconds since the epoch, as \<^verbatim>\<open>new Date()\<close> holds it;
  \<^verbatim>\<open>getUTCHours\<close> and \<^verbatim>\<open>getUTCMinutes\<close> read it with floored division.
\<close>

definition getUTCHours :: "int \<Rightarrow> int" where
  "getUTCHours t = t div 3600000 mod 24"

definition getUTCMinutes :: "int \<Rightarrow> int" where
  "getUTCMinutes t = t div 60000 mod 60"

definition isMarketOpen :: "int \<Rightarrow> bool" where
  "isMarketOpen now =
     (let istMinutes = getUTCHours now * 60 + getUTCMinutes now + 330;
          marketOpen = 9 * 60 + 15;
          marketClose = 15 * 60 + 30
      in istMinutes \<ge> marketOpen \<and> istMinutes \<le> marketClose)"

text \<open>
  The earlier revision of the module added five hours to the UTC hour and no minutes.
\<close>

definition isMarketOpen_rev1 :: "int \<Rightarrow> bool" where
  "isMarketOpen_rev1 now =
     (let hours = getUTCHours now + 5;
          minutes = getUTCMinutes now;
          totalMinutes = hours * 60 + minutes;
          marketOpen = 9 * 60 + 15;
          marketClose = 15 * 60 + 30
      in totalMinutes \<ge> marketOpen \<and> totalMinutes \<le> marketClose)"

text \<open>The clock of the claim: minutes since midnight at the fixed offset UTC+5:30.\<close>

definition ist_minutes_of_day :: "int \<Rightarrow> int" where
  "ist_minutes_of_day t = (t div 60000 + 330) mod 1440"

section \<open>Subscription\<close>

definition BATCH_SIZE :: nat where
  "BATCH_SIZE = 100"

text \<open>\<^verbatim>\<open>xs.slice(i, j)\<close> for \<open>0 \<le> i \<le> j\<close>.\<close>

definition slice :: "nat \<Rightarrow> nat \<Rightarrow> 'a list \<Rightarrow> 'a list" where
  "slice i j xs = take (j - i) (drop i xs)"

definition ws_send :: "request \<Rightarrow> module_state \<Rightarrow> module_state" where
  "ws_send payload s = s\<lparr>sent := sent s @ [payload]\<rparr>"

definition instrument_ref_of :: "DhanInstrument \<Rightarrow> instrument_ref" where
  "instrument_ref_of inst =
     \<lparr>ExchangeSegment = inst_exchange inst, SecurityId = inst_securityId inst\<rparr>"

definition subscribe_payload :: "DhanInstrument list \<Rightarrow> request" where
  "subscribe_payload batch = Subscribe 15 (length batch) (map instrument_ref_of batch)"

text \<open>The loop \<^verbatim>\<open>for (let i = 0; i < totalInstruments; i += BATCH_SIZE)\<close>, entered at \<open>i\<close>.\<close>

function send_batches :: "nat \<Rightarrow> nat \<Rightarrow> module_state \<Rightarrow> module_state" where
  "send_batches totalInstruments i s =
     (if i < totalInstruments
      then send_batches totalInstruments (i + BATCH_SIZE)
             (ws_send (subscribe_payload (slice i (i + BATCH_SIZE) (STOCK_INSTRUMENTS s))) s)
      else s)"
  by pat_completeness auto
termination
  by (relation "measure (\<lambda>(total, i, s). total - i)") (auto simp: BATCH_SIZE_def)

declare send_batches.simps [simp del]

definition subscribeToStockCodes :: "int \<Rightarrow> module_state \<Rightarrow> outcome" where
  "subscribeToStockCodes now s =
     (if \<not> isMarketOpen now then Normal s
      else if ws s \<noteq> Some OPEN then Normal s
      else (case validateInstruments s of
              Inl e \<Rightarrow> Throws e s
            | Inr _ \<Rightarrow>
                Normal (ws_send (SetMode 16 1)
                          (send_batches (length (STOCK_INSTRUMENTS s)) 0 s))))"

section \<open>Message handling\<close>

definition resolveSymbol :: "string option \<Rightarrow> module_state \<Rightarrow> string" where
  "resolveSymbol sid s =
     (if falsy sid then ''UNKNOWN''
      else (case map_get sid (SECURITY_ID_TO_SYMBOL s) of
              Some name \<Rightarrow> name
            | None \<Rightarrow> ''securityId:'' @ the sid))"

definition parseBinaryTick :: "buffer \<Rightarrow> parsed_tick option" where
  "parseBinaryTick buf =
     (if length buf < 16 then None
      else (case readUInt8 buf 0 of None \<Rightarrow> None | Some mt \<Rightarrow>
           (case readUInt32LE buf 4 of None \<Rightarrow> None | Some sid \<Rightarrow>
           (case readFloatLE buf 8 of None \<Rightarrow> None | Some p \<Rightarrow>
           (case readUInt32LE buf 12 of None \<Rightarrow> None | Some ts \<Rightarrow>
              Some \<lparr>messageType = mt, securityId = sid, price = p, timestamp = ts\<rparr>)))))"

text \<open>What the socket delivers: a \<^verbatim>\<open>Buffer\<close>, or anything else (shown as text).\<close>

datatype ws_data = BufferData buffer | OtherData string

definition messageTypeLabel_of :: "nat \<Rightarrow> string" where
  "messageTypeLabel_of mt =
     (if mt = 2 then ''LTP'' else if mt = 6 then ''QUOTE'' else ''TYPE_'' @ String_of mt)"

definition handleMessage :: "ws_data \<Rightarrow> module_state \<Rightarrow> module_state" where
  "handleMessage data s =
     (case data of
        OtherData _ \<Rightarrow> s
      | BufferData buf \<Rightarrow>
          (case parseBinaryTick buf of
             None \<Rightarrow> s
           | Some tickData \<Rightarrow>
               (let tickDataWithSymbol =
                      \<lparr>messageType = messageType tickData,
                       securityId = securityId tickData,
                       price = price tickData,
                       timestamp = timestamp tickData,
                       symbol = resolveSymbol (Some (String_of (securityId tickData))) s,
                       messageTypeLabel = messageTypeLabel_of (messageType tickData)\<rparr>
                in broadcastTickData tickDataWithSymbol
                     (s\<lparr>tickDataStore :=
                          map_set (securityId tickData) tickDataWithSymbol (tickDataStore s)\<rparr>))))"

section \<open>Connection lifecycle\<close>

definition connectWebSocket :: "credentials \<Rightarrow> module_state \<Rightarrow> outcome" where
  "connectWebSocket env s =
     (if isConnecting s \<or> ws s \<noteq> None then Normal s
      else (case validateEnv env of
              Inl e \<Rightarrow> Throws e s
            | Inr _ \<Rightarrow> Normal (s\<lparr>isConnecting := True, ws := Some CONNECTING\<rparr>)))"

text \<open>
  The handlers registered on the socket. The transport has set the socket's ready state
  to \<open>OPEN\<close> when it emits \<^verbatim>\<open>open\<close>; the \<^verbatim>\<open>close\<close> handler drops the socket.
  When the subscription throws, the \<^verbatim>\<open>open\<close> handler has already cleared the
  connecting flag and reset the delay.
\<close>

definition on_open :: "int \<Rightarrow> module_state \<Rightarrow> outcome" where
  "on_open now s =
     subscribeToStockCodes now
       (s\<lparr>ws := map_option (\<lambda>_. OPEN) (ws s), isConnecting := False, reconnectDelay := 5000\<rparr>)"

definition on_error :: "module_state \<Rightarrow> module_state" where
  "on_error s = s"

definition on_close :: "module_state \<Rightarrow> module_state" where
  "on_close s =
     s\<lparr>ws := None, isConnecting := False,
       reconnectTimer := Some (length (timeouts s)),
       timeouts := timeouts s @ [reconnectDelay s]\<rparr>"

text \<open>The callback handed to \<^verbatim>\<open>setTimeout\<close> by the \<^verbatim>\<open>close\<close> handler.\<close>

definition on_timeout :: "credentials \<Rightarrow> module_state \<Rightarrow> outcome" where
  "on_timeout env s =
     connectWebSocket env (s\<lparr>reconnectDelay := min (reconnectDelay s * (3 / 2)) 60000\<rparr>)"

definition initDhanSocket :: "credentials \<Rightarrow> module_state \<Rightarrow> outcome" where
  "initDhanSocket env s =
     (if ws s = None \<and> \<not> isConnecting s then connectWebSocket env s else Normal s)"

definition getSocketStatus :: "module_state \<Rightarrow> string" where
  "getSocketStatus s =
     (case ws s of
        None \<Rightarrow> (if isConnecting s then ''connecting'' else ''not_initialized'')
      | Some OPEN \<Rightarrow> ''open''
      | Some CONNECTING \<Rightarrow> ''connecting''
      | Some _ \<Rightarrow> ''closed'')"

definition closeSocket :: "module_state \<Rightarrow> module_state" where
  "closeSocket s =
     (let s1 = (case reconnectTimer s of
                  Some h \<Rightarrow> s\<lparr>cleared := cleared s @ [h]\<rparr>
                | None \<Rightarrow> s);
          s2 = s1\<lparr>reconnectTimer := None, isConnecting := False\<rparr>
      in if ws s2 \<noteq> None then s2\<lparr>ws := None\<rparr> else s2)"

text \<open>
  Loading the module: the variables' initial values and the two lookup tables filled from
  the instrument list (\<open>initial_state\<close>), then the automatic start when \<open>autoInit\<close>
  holds (on the server, outside the build, not started before).
\<close>

definition initial_state :: "DhanInstrument list \<Rightarrow> (nat \<Rightarrow> controller) \<Rightarrow> module_state" where
  "initial_state insts heap =
     \<lparr>ws = None, reconnectTimer = None, isConnecting = False, reconnectDelay = 5000,
      tickDataStore = [], sseClients = [],
      STOCK_INSTRUMENTS = insts,
      SECURITY_ID_TO_SYMBOL =
        fold (\<lambda>inst. map_set (inst_securityId inst) (inst_symbol inst)) insts [],
      SECURITY_ID_TO_EXCHANGE =
        fold (\<lambda>inst. map_set (inst_securityId inst) (inst_exchange inst)) insts [],
      controllers = heap, timeouts = [], cleared = [], sent = []\<rparr>"

definition module_load ::
  "credentials \<Rightarrow> bool \<Rightarrow> DhanInstrument list \<Rightarrow> (nat \<Rightarrow> controller) \<Rightarrow> outcome" where
  "module_load env autoInit insts heap =
     (if autoInit then initDhanSocket env (initial_state insts heap)
      else Normal (initial_state insts heap))"

section \<open>Events\<close>

text \<open>
  What can happen to the loaded module: a call of its exported functions, an event of
  the socket, the reconnect timer firing. An exception that leaves a handler ends the
  run, in the state reached when it was thrown.
\<close>

datatype event =
    Init
  | Open int
  | Message ws_data
  | Err
  | Close
  | Timeout
  | ManualClose
  | SseSubscribe string nat
  | SseUnsubscribe string

fun step :: "credentials \<Rightarrow> event \<Rightarrow> module_state \<Rightarrow> outcome" where
  "step env Init s = initDhanSocket env s"
| "step env (Open now) s = on_open now s"
| "step env (Message data) s = Normal (handleMessage data s)"
| "step env Err s = Normal (on_error s)"
| "step env Close s = Normal (on_close s)"
| "step env Timeout s = on_timeout env s"
| "step env ManualClose s = Normal (closeSocket s)"
| "step env (SseSubscribe ident c) s = Normal (subscribeToTicks ident c s)"
| "step env (SseUnsubscribe ident) s = Normal (unsubscribe ident s)"

fun run :: "credentials \<Rightarrow> event list \<Rightarrow> module_state \<Rightarrow> outcome" where
  "run env [] s = Normal s"
| "run env (ev # evs) s =
     (case step env ev s of Throws e s' \<Rightarrow> Throws e s' | Normal s' \<Rightarrow> run env evs s')"

section \<open>Reference notions of the specification\<close>

text \<open>The instant at which the IST wall clock shows \<open>h:m\<close> on day \<open>day\<close> after the epoch.\<close>

definition ist_instant :: "int \<Rightarrow> int \<Rightarrow> int \<Rightarrow> int" where
  "ist_instant day h m = ((day * 1440 + h * 60 + m) - 330) * 60000"

text \<open>
  The delays of the claim: 5000 ms first, then the previous one times 1.5, capped at
  60000 ms.
\<close>

fun backoff_delay :: "nat \<Rightarrow> rat" where
  "backoff_delay 0 = 5000"
| "backoff_delay (Suc k) = min (backoff_delay k * (3 / 2)) 60000"

text \<open>
  The reconnections of a run are driven by the timer when every close is followed by the
  firing of its reconnect timer before the next close or open, and the timer fires at no
  other moment. The flag says whether a timer is pending. Calls of \<open>initDhanSocket\<close>,
  errors, messages and client subscriptions may come at any point.
\<close>

fun timer_driven :: "bool \<Rightarrow> event list \<Rightarrow> bool" where
  "timer_driven pending [] = True"
| "timer_driven pending (Close # evs) = (\<not> pending \<and> timer_driven True evs)"
| "timer_driven pending (Timeout # evs) = (pending \<and> timer_driven False evs)"
| "timer_driven pending (Open now # evs) = (\<not> pending \<and> timer_driven False evs)"
| "timer_driven pending (ManualClose # evs) = False"
| "timer_driven pending (ev # evs) = timer_driven pending evs"

text \<open>
  The delays the claim expects of a run: each close schedules \<open>backoff_delay k\<close>, where
  \<open>k\<close> counts the closes since the last open.
\<close>

fun scheduled_delays :: "nat \<Rightarrow> event list \<Rightarrow> rat list" where
  "scheduled_delays k [] = []"
| "scheduled_delays k (Close # evs) = backoff_delay k # scheduled_delays (Suc k) evs"
| "scheduled_delays k (Open now # evs) = scheduled_delays 0 evs"
| "scheduled_delays k (ev # evs) = scheduled_delays k evs"

text \<open>The status reported after a run of events.\<close>

definition status_after :: "credentials \<Rightarrow> event list \<Rightarrow> module_state \<Rightarrow> error + string" where
  "status_after env evs s =
     (case run env evs s of Throws e s' \<Rightarrow> Inl e | Normal s' \<Rightarrow> Inr (getSocketStatus s'))"

subsection \<open>Sample data\<close>

definition sample_credentials :: credentials where
  "sample_credentials = \<lparr>clientId = Some ''1100000001'', accessToken = Some ''token''\<rparr>"

definition sample_instruments :: "DhanInstrument list" where
  "sample_instruments =
     [\<lparr>inst_symbol = ''RELIANCE'', inst_exchange = Some ''NSE_EQ'', inst_securityId = Some ''2885''\<rparr>,
      \<lparr>inst_symbol = ''TCS'', inst_exchange = Some ''NSE_EQ'', inst_securityId = Some ''11536''\<rparr>]"

definition malformed_instruments :: "DhanInstrument list" where
  "malformed_instruments =
     [\<lparr>inst_symbol = ''RELIANCE'', inst_exchange = Some ''NSE_EQ'', inst_securityId = Some ''2885''\<rparr>,
      \<lparr>inst_symbol = ''TCS'', inst_exchange = Some ''NSE_EQ'', inst_securityId = None\<rparr>]"

definition segmentless_instruments :: "DhanInstrument list" where
  "segmentless_instruments =
     [\<lparr>inst_symbol = ''RELIANCE'', inst_exchange = Some ''NSE_EQ'', inst_securityId = Some ''2885''\<rparr>,
      \<lparr>inst_symbol = ''TCS'', inst_exchange = None, inst_securityId = Some ''11536''\<rparr>]"

definition open_streams :: "nat \<Rightarrow> controller" where
  "open_streams = (\<lambda>_. \<lparr>stream_closed = False, chunks = []\<rparr>)"

text \<open>A socket that is connecting again after two failed attempts.\<close>

definition reconnecting_state :: module_state where
  "reconnecting_state =
     (initial_state sample_instruments open_streams)
       \<lparr>ws := Some CONNECTING, isConnecting := True, reconnectDelay := 11250,
        timeouts := [5000, 7500]\<rparr>"

text \<open>An open socket with 220 well-formed instruments.\<close>

definition numbered_instrument :: "nat \<Rightarrow> DhanInstrument" where
  "numbered_instrument k =
     \<lparr>inst_symbol = ''SYM'' @ String_of k, inst_exchange = Some ''NSE_EQ'',
      inst_securityId = Some (String_of k)\<rparr>"

definition wide_state :: module_state where
  "wide_state =
     (initial_state (map numbered_instrument [0..<220]) open_streams)\<lparr>ws := Some OPEN\<rparr>"

text \<open>A store that holds one tick.\<close>

definition sample_tick :: TickData where
  "sample_tick =
     \<lparr>messageType = 2, securityId = 2885, price = Fin (4913 / 2), timestamp = 1700000000,
      symbol = ''RELIANCE'', messageTypeLabel = ''LTP''\<rparr>"

definition ticking_state :: module_state where
  "ticking_state =
     (initial_state sample_instruments open_streams)
       \<lparr>ws := Some OPEN, tickDataStore := [(2885, sample_tick)]\<rparr>"

definition sample_frame :: "8 word \<Rightarrow> 8 word \<Rightarrow> 8 word \<Rightarrow> buffer" where
  "sample_frame b1 b2 b3 =
     [2, b1, b2, b3, 0x45, 0x0B, 0, 0, 0, 0x88, 0x19, 0x45, 0, 0xF1, 0x53, 0x65]"

section \<open>Market hours\<close>

lemma window_shift:
  "(555 \<le> (x::int) mod 1440 + 330 \<and> x mod 1440 + 330 \<le> 930)
   = (555 \<le> (x + 330) mod 1440 \<and> (x + 330) mod 1440 \<le> 930)"
proof -
  define y where "y = x mod 1440"
  have range: "0 \<le> y" "y < 1440"
    by (simp_all add: y_def)
  have shift: "(x + 330) mod 1440 = (y + 330) mod 1440"
    by (simp add: y_def mod_add_left_eq)
  show ?thesis
  proof (cases "y + 330 < 1440")
    case True
    with range have "(y + 330) mod 1440 = y + 330"
      by simp
    then show ?thesis
      by (simp add: shift y_def [symmetric])
  next
    case False
    define z where "z = y + 330 - 1440"
    have z: "0 \<le> z" "z < 330" "y + 330 = z + 1440"
      using False range by (simp_all add: z_def)
    have "(z + 1440) mod 1440 = z mod 1440"
      by (rule mod_add_self2)
    also have "\<dots> = z"
      using z by (intro mod_pos_pos_trivial) simp_all
    finally have "(y + 330) mod 1440 = z"
      by (simp only: z)
    with z show ?thesis
      by (simp add: shift y_def [symmetric])
  qed
qed

lemma minutes_split: "(x::int) div 60 mod 24 * 60 + x mod 60 = x mod 1440"
proof -
  have "x mod (60 * 24) = 60 * (x div 60 mod 24) + x mod 60"
    by (rule zmod_zmult2_eq) simp
  then show ?thesis
    by simp
qed

lemma utc_minutes_of_day:
  "getUTCHours t * 60 + getUTCMinutes t = t div 60000 mod 1440"
proof -
  have "t div 3600000 = t div 60000 div 60"
    by (simp add: zdiv_zmult2_eq [symmetric])
  then show ?thesis
    unfolding getUTCHours_def getUTCMinutes_def by (simp only: minutes_split)
qed

lemma isMarketOpen_window:
  "isMarketOpen t = (555 \<le> ist_minutes_of_day t \<and> ist_minutes_of_day t \<le> 930)"
proof -
  have "isMarketOpen t
        = (555 \<le> t div 60000 mod 1440 + 330 \<and> t div 60000 mod 1440 + 330 \<le> 930)"
    unfolding isMarketOpen_def Let_def utc_minutes_of_day by simp
  then show ?thesis
    unfolding ist_minutes_of_day_def by (simp only: window_shift)
qed

lemma ist_minutes_of_day_instant:
  assumes "0 \<le> h * 60 + m" and "h * 60 + m < 1440"
  shows "ist_minutes_of_day (ist_instant d h m) = h * 60 + m"
proof -
  have "ist_instant d h m div 60000 + 330 = (h * 60 + m) + d * 1440"
    by (simp add: ist_instant_def)
  then have "ist_minutes_of_day (ist_instant d h m) = ((h * 60 + m) + d * 1440) mod 1440"
    by (simp only: ist_minutes_of_day_def)
  also have "\<dots> = (h * 60 + m) mod 1440"
    by (rule mod_mult_self1)
  also have "\<dots> = h * 60 + m"
    using assms by (intro mod_pos_pos_trivial)
  finally show ?thesis .
qed

text \<open>The earlier revision was half an hour late: closed at 09:15 IST, open at 15:31 IST.\<close>

lemma isMarketOpen_rev1_late:
  "\<not> isMarketOpen_rev1 (ist_instant 0 9 15) \<and> isMarketOpen_rev1 (ist_instant 0 15 31)"
  by (simp add: isMarketOpen_rev1_def getUTCHours_def getUTCMinutes_def ist_instant_def)

text \<open>
  Claim C5. At every instant \<open>isMarketOpen\<close> holds exactly when the minutes since
  midnight at UTC+5:30 lie between 09:15 and 15:30, both ends included; on every day
  it holds at 09:15 and at 15:30 IST and fails at 09:14 and at 15:31 IST.
\<close>

theorem isMarketOpen_ist_window:
  "isMarketOpen t
     = (9 * 60 + 15 \<le> ist_minutes_of_day t \<and> ist_minutes_of_day t \<le> 15 * 60 + 30)
   \<and> isMarketOpen (ist_instant d 9 15) \<and> isMarketOpen (ist_instant d 15 30)
   \<and> \<not> isMarketOpen (ist_instant d 9 14) \<and> \<not> isMarketOpen (ist_instant d 15 31)"
proof -
  have "isMarketOpen t
          = (9 * 60 + 15 \<le> ist_minutes_of_day t \<and> ist_minutes_of_day t \<le> 15 * 60 + 30)"
    by (simp add: isMarketOpen_window)
  moreover have "isMarketOpen (ist_instant d 9 15)" "isMarketOpen (ist_instant d 15 30)"
    "\<not> isMarketOpen (ist_instant d 9 14)" "\<not> isMarketOpen (ist_instant d 15 31)"
    by (simp_all add: isMarketOpen_window ist_minutes_of_day_instant)
  ultimately show ?thesis
    by blast
qed

section \<open>Reconnection\<close>







lemma handleMessage_keeps:
  "STOCK_INSTRUMENTS (handleMessage d s) = STOCK_INSTRUMENTS s
   \<and> sent (handleMessage d s) = sent s
   \<and> timeouts (handleMessage d s) = timeouts s
   \<and> reconnectDelay (handleMessage d s) = reconnectDelay s"
  by (simp add: handleMessage_def broadcastTickData_def Let_def
      split: ws_data.splits option.splits prod.splits)

lemma subscribeToTicks_keeps:
  "STOCK_INSTRUMENTS (subscribeToTicks i c s) = STOCK_INSTRUMENTS s
   \<and> sent (subscribeToTicks i c s) = sent s
   \<and> timeouts (subscribeToTicks i c s) = timeouts s
   \<and> reconnectDelay (subscribeToTicks i c s) = reconnectDelay s"
  by (simp add: subscribeToTicks_def Let_def split: option.splits)

lemma closeSocket_keeps:
  "STOCK_INSTRUMENTS (closeSocket s) = STOCK_INSTRUMENTS s
   \<and> sent (closeSocket s) = sent s
   \<and> timeouts (closeSocket s) = timeouts s
   \<and> reconnectDelay (closeSocket s) = reconnectDelay s"
  by (simp add: closeSocket_def Let_def split: option.splits)


text \<open>
  The delays written out. There are eight of them, all multiples of 1/8 below \<open>2 ^ 16\<close>,
  so the binary64 arithmetic of the source computes them without rounding.
\<close>

lemma backoff_delay_values:
  "map backoff_delay [0..<9]
   = [5000, 7500, 11250, 16875, 50625 / 2, 151875 / 4, 455625 / 8, 60000, 60000]"
  by code_simp

lemma backoff_delay_range:
  "backoff_delay k \<in> {5000, 7500, 11250, 16875, 50625 / 2, 151875 / 4, 455625 / 8, 60000}"
  by (induction k) auto

text \<open>
  Closes in a row, each followed by its timer, are driven by the timer, and the delays
  expected of them are the claim's sequence.
\<close>

lemma closes_in_a_row:
  "timer_driven False (concat (replicate n [Close, Timeout]))
   \<and> scheduled_delays k (concat (replicate n [Close, Timeout])) = map backoff_delay [k..<k + n]"
proof (induction n arbitrary: k)
  case 0
  then show ?case
    by simp
next
  case (Suc n)
  have "[k..<k + Suc n] = k # [Suc k..<Suc k + n]"
    using upt_conv_Cons [of k "k + Suc n"] by simp
  then show ?case
    using Suc [of "Suc k"] by simp
qed


lemma sample_credentials_set: "validateEnv sample_credentials = Inr ()"
  by (simp add: validateEnv_def sample_credentials_def falsy_def)


lemma market_open_at_10: "isMarketOpen (ist_instant 0 10 0)"
  by (simp add: isMarketOpen_window ist_minutes_of_day_instant)

lemma market_closed_at_16: "\<not> isMarketOpen (ist_instant 0 16 0)"
  by (simp add: isMarketOpen_window ist_minutes_of_day_instant)



section \<open>Decoding\<close>

text \<open>
  Claim C3. The 16-byte frame with byte 0 equal to 2, bytes 4 to 7 the little-endian
  2885, bytes 8 to 11 the little-endian binary32 pattern of 2456.5 and bytes 12 to 15 the
  little-endian 1700000000 decodes to message type 2, security id 2885, price 2456.5 and
  timestamp 1700000000, whatever bytes 1 to 3 are.
\<close>

theorem parseBinaryTick_sample_frame:
  "parseBinaryTick (sample_frame b1 b2 b3)
   = Some \<lparr>messageType = 2, securityId = 2885, price = Fin (4913 / 2), timestamp = 1700000000\<rparr>
   \<and> length (sample_frame b1 b2 b3) = 16
   \<and> (4913 / 2 :: rat) = 2456.5"
  by (simp add: sample_frame_def parseBinaryTick_def readUInt8_def readUInt32LE_def
        readFloatLE_def float32_value_def)

text \<open>
  Claim C2. A binary frame of at most 15 bytes does not decode, whatever its bytes, and
  handling it leaves the whole state as it was: the tick store, the clients and their
  streams, the socket, the reconnect delay and timer.
\<close>

theorem short_frame_dropped:
  "length buf \<le> 15 \<Longrightarrow> parseBinaryTick buf = None \<and> handleMessage (BufferData buf) s = s"
  by (simp add: handleMessage_def parseBinaryTick_def)

theorem short_frame_dropped_witness:
  "length (take 15 (sample_frame 0 0 0)) \<le> 15
   \<and> parseBinaryTick (take 15 (sample_frame 0 0 0)) = None
   \<and> handleMessage (BufferData (take 15 (sample_frame 0 0 0))) reconnecting_state
       = reconnecting_state"
  using short_frame_dropped [of "take 15 (sample_frame 0 0 0)" reconnecting_state]
  by (simp add: sample_frame_def)

section \<open>Tick store\<close>

text \<open>
  Claim C10. \<open>getTickData\<close> with security id 0 returns the whole store, as the call
  without argument does, and not the record kept under id 0; any other id is looked up.
\<close>

theorem getTickData_zero:
  "getTickData (Some 0) s = Store (tickDataStore s)
   \<and> getTickData (Some 0) s = getTickData None s
   \<and> getTickData (Some 0) s \<noteq> Record (map_get 0 (tickDataStore s))
   \<and> getTickData (Some (Suc n)) s = Record (map_get (Suc n) (tickDataStore s))
   \<and> getTickData (Some 0) (s\<lparr>tickDataStore := [(0, t)]\<rparr>) = Store [(0, t)]"
  by (simp add: getTickData_def)

section \<open>Subscription\<close>

lemma String_of_nonempty: "String_of n \<noteq> []"
  by (subst String_of.simps) simp

text \<open>
  Claim C4. With 220 well-formed instruments, the market open and the socket open, the
  subscription sends exactly four payloads, in this order: three subscribe requests with
  request code 15 holding the first 100, the next 100 and the last 20 instruments in list
  order, each with its size as \<open>InstrumentCount\<close>, then the mode request
  \<open>{RequestCode: 16, Mode: 1}\<close>. The entry of an instrument is the pair of its
  exchange segment and its security id. Nothing else of the state changes, the instrument
  list included.
\<close>

theorem subscribe_220_batches:
  assumes "length (STOCK_INSTRUMENTS s) = 220"
      and "validateInstruments s = Inr ()"
      and "isMarketOpen now"
      and "ws s = Some OPEN"
  shows "subscribeToStockCodes now s
         = Normal (s\<lparr>sent := sent s @
                  [Subscribe 15 100 (map instrument_ref_of (take 100 (STOCK_INSTRUMENTS s))),
                   Subscribe 15 100
                     (map instrument_ref_of (take 100 (drop 100 (STOCK_INSTRUMENTS s)))),
                   Subscribe 15 20 (map instrument_ref_of (drop 200 (STOCK_INSTRUMENTS s))),
                   SetMode 16 1]\<rparr>)
         \<and> take 100 (STOCK_INSTRUMENTS s) @ take 100 (drop 100 (STOCK_INSTRUMENTS s))
             @ drop 200 (STOCK_INSTRUMENTS s) = STOCK_INSTRUMENTS s
         \<and> instrument_ref_of inst
             = \<lparr>ExchangeSegment = inst_exchange inst, SecurityId = inst_securityId inst\<rparr>"
proof -
  have "take 100 (drop 100 (STOCK_INSTRUMENTS s)) @ drop 200 (STOCK_INSTRUMENTS s)
        = drop 100 (STOCK_INSTRUMENTS s)"
    using append_take_drop_id [of 100 "drop 100 (STOCK_INSTRUMENTS s)"] by simp
  then have "take 100 (STOCK_INSTRUMENTS s) @ take 100 (drop 100 (STOCK_INSTRUMENTS s))
             @ drop 200 (STOCK_INSTRUMENTS s) = STOCK_INSTRUMENTS s"
    by simp
  moreover have "subscribeToStockCodes now s
         = Normal (s\<lparr>sent := sent s @
                  [Subscribe 15 100 (map instrument_ref_of (take 100 (STOCK_INSTRUMENTS s))),
                   Subscribe 15 100
                     (map instrument_ref_of (take 100 (drop 100 (STOCK_INSTRUMENTS s)))),
                   Subscribe 15 20 (map instrument_ref_of (drop 200 (STOCK_INSTRUMENTS s))),
                   SetMode 16 1]\<rparr>)"
    using assms
    by (simp add: subscribeToStockCodes_def send_batches.simps [of 220 0]
          send_batches.simps [of 220 100] send_batches.simps [of 220 200]
          send_batches.simps [of 220 300] BATCH_SIZE_def ws_send_def slice_def
          subscribe_payload_def)
  moreover have "instrument_ref_of inst
      = \<lparr>ExchangeSegment = inst_exchange inst, SecurityId = inst_securityId inst\<rparr>"
    by (simp add: instrument_ref_of_def)
  ultimately show ?thesis
    by blast
qed

lemma wide_instruments: "STOCK_INSTRUMENTS wide_state = map numbered_instrument [0..<220]"
  by (simp add: wide_state_def initial_state_def)

lemma wide_valid: "validateInstruments wide_state = Inr ()"
  by (simp add: validateInstruments_def wide_instruments filter_empty_conv falsy_def
        numbered_instrument_def String_of_nonempty malformed_def)

theorem subscribe_220_batches_witness:
  "length (STOCK_INSTRUMENTS wide_state) = 220
   \<and> validateInstruments wide_state = Inr ()
   \<and> isMarketOpen (ist_instant 0 10 0)
   \<and> ws wide_state = Some OPEN
   \<and> subscribeToStockCodes (ist_instant 0 10 0) wide_state
       = Normal (wide_state\<lparr>sent :=
                [Subscribe 15 100 (map instrument_ref_of (map numbered_instrument [0..<100])),
                 Subscribe 15 100 (map instrument_ref_of (map numbered_instrument [100..<200])),
                 Subscribe 15 20 (map instrument_ref_of (map numbered_instrument [200..<220])),
                 SetMode 16 1]\<rparr>)
   \<and> instrument_ref_of (numbered_instrument 219)
       = \<lparr>ExchangeSegment = Some ''NSE_EQ'', SecurityId = Some ''219''\<rparr>"
proof -
  have len: "length (STOCK_INSTRUMENTS wide_state) = 220"
    by (simp add: wide_instruments)
  have opn: "ws wide_state = Some OPEN"
    by (simp add: wide_state_def)
  have "sent wide_state = []"
    by (simp add: wide_state_def initial_state_def)
  moreover have "take 100 (STOCK_INSTRUMENTS wide_state) = map numbered_instrument [0..<100]"
    "take 100 (drop 100 (STOCK_INSTRUMENTS wide_state)) = map numbered_instrument [100..<200]"
    "drop 200 (STOCK_INSTRUMENTS wide_state) = map numbered_instrument [200..<220]"
    by (simp_all add: wide_instruments take_map drop_map take_upt drop_upt)
  moreover have "String_of 219 = ''219''"
    by code_simp
  then have "inst_exchange (numbered_instrument 219) = Some ''NSE_EQ''"
    "inst_securityId (numbered_instrument 219) = Some ''219''"
    by (simp_all add: numbered_instrument_def)
  ultimately show ?thesis
    using subscribe_220_batches
      [OF len wide_valid market_open_at_10 opn, where inst = "numbered_instrument 219"]
      len wide_valid market_open_at_10 opn
    by simp
qed

section \<open>Symbol lookup\<close>

text \<open>
  Claim C6. A security id is a non-empty string; the only call of \<open>resolveSymbol\<close>
  passes the decimal form of the number decoded from a frame. For every such id,
  \<open>resolveSymbol\<close> returns the table's symbol when the table holds the id and
  \<open>securityId:<id>\<close> when it does not: it always returns. The guard at its head
  answers \<open>UNKNOWN\<close> to the empty and to the missing argument only.
\<close>

theorem resolveSymbol_lookup:
  "sid \<noteq> [] \<Longrightarrow>
   resolveSymbol (Some sid) s
     = (case map_get (Some sid) (SECURITY_ID_TO_SYMBOL s) of
          Some name \<Rightarrow> name
        | None \<Rightarrow> ''securityId:'' @ sid)
   \<and> resolveSymbol (Some (String_of n)) s
     = (case map_get (Some (String_of n)) (SECURITY_ID_TO_SYMBOL s) of
          Some name \<Rightarrow> name
        | None \<Rightarrow> ''securityId:'' @ String_of n)
   \<and> resolveSymbol (Some []) s = ''UNKNOWN''
   \<and> resolveSymbol None s = ''UNKNOWN''"
  by (simp add: resolveSymbol_def falsy_def String_of_nonempty split: option.splits)

theorem resolveSymbol_lookup_witness:
  "''999'' \<noteq> []
   \<and> resolveSymbol (Some ''999'') (initial_state sample_instruments open_streams)
       = ''securityId:999''
   \<and> resolveSymbol (Some ''2885'') (initial_state sample_instruments open_streams)
       = ''RELIANCE''"
  using resolveSymbol_lookup [of "''999''" "initial_state sample_instruments open_streams"]
    resolveSymbol_lookup [of "''2885''" "initial_state sample_instruments open_streams"]
  by (simp add: initial_state_def sample_instruments_def)

text \<open>
  The table holds, for each security id of the instrument list, the symbol of the last
  instrument that carries it.
\<close>

lemma map_get_map_set: "map_get k (map_set k' v m) = (if k = k' then Some v else map_get k m)"
  by (induction m) auto

lemma find_snoc:
  "find P (xs @ [x]) = (case find P xs of Some y \<Rightarrow> Some y | None \<Rightarrow> if P x then Some x else None)"
  by (induction xs) auto

lemma map_get_fold_map_set:
  "map_get k (fold (\<lambda>inst. map_set (f inst) (g inst)) insts m)
   = (case find (\<lambda>inst. f inst = k) (rev insts) of
        Some inst \<Rightarrow> Some (g inst)
      | None \<Rightarrow> map_get k m)"
  by (induction insts arbitrary: m) (auto simp: map_get_map_set find_snoc split: option.splits)

lemma symbol_table_lookup:
  "map_get k (SECURITY_ID_TO_SYMBOL (initial_state insts heap))
   = map_option inst_symbol (find (\<lambda>inst. inst_securityId inst = k) (rev insts))"
  by (simp add: initial_state_def map_get_fold_map_set split: option.splits)

section \<open>Status\<close>

text \<open>
  Claim C8, as the code has it. The status is one of the four strings and depends only on
  the socket variable and the connecting flag. It is \<open>not_initialized\<close> exactly when
  there is no socket and no connection attempt is under way: in the freshly loaded module,
  and again after the socket has closed or has been closed by hand. It is \<open>closed\<close>
  exactly while the module still holds a socket that is closing or closed.
\<close>

theorem getSocketStatus_cases:
  "getSocketStatus s \<in> {''connecting'', ''open'', ''closed'', ''not_initialized''}
   \<and> (getSocketStatus s = ''not_initialized'') = (ws s = None \<and> \<not> isConnecting s)
   \<and> (getSocketStatus s = ''closed'') = (ws s = Some CLOSING \<or> ws s = Some CLOSED)
   \<and> getSocketStatus (on_close s) = ''not_initialized''
   \<and> getSocketStatus (closeSocket s) = ''not_initialized''
   \<and> getSocketStatus (initial_state insts heap) = ''not_initialized''"
  by (auto simp: getSocketStatus_def on_close_def closeSocket_def initial_state_def Let_def
      split: option.splits readyState.splits)

text \<open>A connection attempt is made, the socket closes, and the status is \<open>not_initialized\<close>.\<close>

theorem status_after_close_counterexample:
  "status_after sample_credentials [Init] (initial_state sample_instruments open_streams)
     = Inr ''connecting''
   \<and> status_after sample_credentials [Init, Close]
        (initial_state sample_instruments open_streams)
     = Inr ''not_initialized''
   \<and> status_after sample_credentials [Init, Close]
        (initial_state sample_instruments open_streams)
     \<noteq> Inr ''closed''"
  by (simp add: status_after_def initDhanSocket_def connectWebSocket_def validateEnv_def
        sample_credentials_def falsy_def initial_state_def on_close_def getSocketStatus_def)

section \<open>Broadcaster\<close>

lemma map_get_map_delete: "map_get k (map_delete k' m) = (if k = k' then None else map_get k m)"
  by (induction m) auto

lemma broadcast_pass_chunks:
  "\<exists>n. chunks (fst (broadcast_pass msg cs h) c) = chunks (h c) @ replicate n msg
       \<and> stream_closed (fst (broadcast_pass msg cs h) c) = stream_closed (h c)"
proof (induction cs arbitrary: h)
  case Nil
  then show ?case
    by simp
next
  case (Cons a cs)
  obtain ident c' where a: "a = (ident, c')"
    by (cases a)
  show ?case
  proof (cases "stream_closed (h c')")
    case True
    then have "fst (broadcast_pass msg (a # cs) h) = fst (broadcast_pass msg cs h)"
      by (simp add: a enqueue_def split: prod.splits)
    then show ?thesis
      using Cons.IH [of h] by simp
  next
    case False
    let ?h = "h(c' := (h c')\<lparr>chunks := chunks (h c') @ [msg]\<rparr>)"
    have eq: "fst (broadcast_pass msg (a # cs) h) = fst (broadcast_pass msg cs ?h)"
      using False by (simp add: a enqueue_def)
    from Cons.IH [of ?h] obtain n where n:
      "chunks (fst (broadcast_pass msg cs ?h) c) = chunks (?h c) @ replicate n msg"
      "stream_closed (fst (broadcast_pass msg cs ?h) c) = stream_closed (?h c)"
      by blast
    show ?thesis
    proof (cases "c = c'")
      case True
      then have "chunks (fst (broadcast_pass msg (a # cs) h) c) = chunks (h c) @ replicate (Suc n) msg"
        using n(1) eq by simp
      moreover have "stream_closed (fst (broadcast_pass msg (a # cs) h) c) = stream_closed (h c)"
        using n(2) eq True by simp
      ultimately show ?thesis
        by blast
    next
      case False
      then show ?thesis
        using n eq by auto
    qed
  qed
qed

lemma handleMessage_chunks:
  "\<exists>ticks. chunks (controllers (handleMessage d s) c) = chunks (controllers s c) @ map Tick ticks
       \<and> stream_closed (controllers (handleMessage d s) c) = stream_closed (controllers s c)"
proof (cases d)
  case (OtherData x)
  then have "handleMessage d s = s"
    by (simp add: handleMessage_def)
  then show ?thesis
    by (simp add: exI [of _ "[]"])
next
  case (BufferData buf)
  show ?thesis
  proof (cases "parseBinaryTick buf")
    case None
    then have "handleMessage d s = s"
      by (simp add: handleMessage_def BufferData)
    then show ?thesis
      by (simp add: exI [of _ "[]"])
  next
    case (Some t)
    define td where "td = \<lparr>messageType = messageType t, securityId = securityId t,
        price = price t, timestamp = timestamp t,
        symbol = resolveSymbol (Some (String_of (securityId t))) s,
        messageTypeLabel = messageTypeLabel_of (messageType t)\<rparr>"
    have "controllers (handleMessage d s) = fst (broadcast_pass (Tick td) (sseClients s) (controllers s))"
      by (simp add: handleMessage_def BufferData Some broadcastTickData_def Let_def td_def
            split: prod.splits)
    moreover obtain n where
      "chunks (fst (broadcast_pass (Tick td) (sseClients s) (controllers s)) c)
         = chunks (controllers s c) @ replicate n (Tick td)"
      "stream_closed (fst (broadcast_pass (Tick td) (sseClients s) (controllers s)) c)
         = stream_closed (controllers s c)"
      using broadcast_pass_chunks by blast
    ultimately have "chunks (controllers (handleMessage d s) c)
         = chunks (controllers s c) @ map Tick (replicate n td)"
      "stream_closed (controllers (handleMessage d s) c) = stream_closed (controllers s c)"
      by simp_all
    then show ?thesis
      by blast
  qed
qed

lemma fold_handleMessage_chunks:
  "\<exists>ticks. chunks (controllers (fold handleMessage frames s) c)
            = chunks (controllers s c) @ map Tick ticks"
proof (induction frames arbitrary: s)
  case Nil
  then show ?case
    by (simp add: exI [of _ "[]"])
next
  case (Cons d frames)
  obtain t1 where t1: "chunks (controllers (handleMessage d s) c) = chunks (controllers s c) @ map Tick t1"
    using handleMessage_chunks by blast
  obtain t2 where "chunks (controllers (fold handleMessage frames (handleMessage d s)) c)
      = chunks (controllers (handleMessage d s) c) @ map Tick t2"
    using Cons.IH by blast
  then have "chunks (controllers (fold handleMessage (d # frames) s) c)
      = chunks (controllers s c) @ map Tick (t1 @ t2)"
    using t1 by simp
  then show ?case
    by blast
qed

text \<open>
  Claim C7, as the code has it. When the store is not empty and the client's stream is
  open, subscribing appends exactly one \<open>initial\<close> message to that stream, holding the
  store's values at that moment; whatever frames are handled afterwards only append
  \<open>tick\<close> messages behind it. The client is registered under the identifier, and
  \<open>unsubscribe\<close> with that identifier removes the registration.
\<close>

theorem subscribeToTicks_initial:
  assumes "tickDataStore s \<noteq> []" and "\<not> stream_closed (controllers s c)"
  shows "chunks (controllers (subscribeToTicks ident c s) c)
           = chunks (controllers s c) @ [Initial (map_values (tickDataStore s))]
       \<and> (\<exists>ticks. chunks (controllers (fold handleMessage frames (subscribeToTicks ident c s)) c)
                    = chunks (controllers s c)
                      @ Initial (map_values (tickDataStore s)) # map Tick ticks)
       \<and> map_get ident (sseClients (subscribeToTicks ident c s)) = Some c
       \<and> map_get ident (sseClients (unsubscribe ident (subscribeToTicks ident c s))) = None"
proof -
  have first: "chunks (controllers (subscribeToTicks ident c s) c)
           = chunks (controllers s c) @ [Initial (map_values (tickDataStore s))]"
    using assms by (simp add: subscribeToTicks_def enqueue_def map_values_def Let_def)
  obtain ticks where
    "chunks (controllers (fold handleMessage frames (subscribeToTicks ident c s)) c)
     = chunks (controllers (subscribeToTicks ident c s) c) @ map Tick ticks"
    using fold_handleMessage_chunks by blast
  then have "chunks (controllers (fold handleMessage frames (subscribeToTicks ident c s)) c)
     = chunks (controllers s c) @ Initial (map_values (tickDataStore s)) # map Tick ticks"
    by (simp add: first)
  moreover have "map_get ident (sseClients (subscribeToTicks ident c s)) = Some c"
    by (simp add: subscribeToTicks_def Let_def map_get_map_set split: option.splits)
  moreover have "map_get ident (sseClients (unsubscribe ident (subscribeToTicks ident c s))) = None"
    by (simp add: unsubscribe_def map_get_map_delete)
  ultimately show ?thesis
    using first by blast
qed

theorem subscribeToTicks_initial_witness:
  "tickDataStore ticking_state \<noteq> []
   \<and> \<not> stream_closed (controllers ticking_state 7)
   \<and> chunks (controllers (subscribeToTicks ''k3x9'' 7 ticking_state) 7) = [Initial [sample_tick]]
   \<and> map_get ''k3x9'' (sseClients (subscribeToTicks ''k3x9'' 7 ticking_state)) = Some 7"
  using subscribeToTicks_initial [of ticking_state 7 "''k3x9''" "[]"]
  by (simp add: ticking_state_def initial_state_def open_streams_def map_values_def)

text \<open>With an empty store and an open stream, subscribing delivers nothing.\<close>

theorem subscribeToTicks_empty_store_counterexample:
  "tickDataStore (initial_state sample_instruments open_streams) = []
   \<and> \<not> stream_closed (controllers (initial_state sample_instruments open_streams) 7)
   \<and> chunks (controllers
        (subscribeToTicks ''k3x9'' 7 (initial_state sample_instruments open_streams)) 7) = []"
  by (simp add: subscribeToTicks_def initial_state_def open_streams_def map_values_def)

text \<open>With an empty store, subscribing registers the client and writes to no stream.\<close>

lemma subscribeToTicks_empty_store:
  "tickDataStore s = [] \<Longrightarrow>
   controllers (subscribeToTicks ident c s) = controllers s
   \<and> map_get ident (sseClients (subscribeToTicks ident c s)) = Some c"
  by (simp add: subscribeToTicks_def map_values_def map_get_map_set)

section \<open>Malformed instruments\<close>

lemma validateInstruments_malformed:
  "\<exists>inst\<in>set (STOCK_INSTRUMENTS s). malformed inst \<Longrightarrow>
   validateInstruments s = Inl (Error ''Invalid Dhan instrument mapping'')"
  by (auto simp: validateInstruments_def filter_empty_conv)

lemma subscribe_malformed:
  "\<exists>inst\<in>set (STOCK_INSTRUMENTS s). malformed inst \<Longrightarrow>
   subscribeToStockCodes now s
   = (if isMarketOpen now \<and> ws s = Some OPEN
      then Throws (Error ''Invalid Dhan instrument mapping'') s else Normal s)"
  by (simp add: subscribeToStockCodes_def validateInstruments_malformed)

lemma connectWebSocket_keeps:
  "STOCK_INSTRUMENTS (state_of (connectWebSocket env s)) = STOCK_INSTRUMENTS s
   \<and> sent (state_of (connectWebSocket env s)) = sent s"
  by (simp add: connectWebSocket_def split: sum.splits)

text \<open>
  With a malformed instrument in the list, no handler changes the list or sends anything,
  whether it returns or throws.
\<close>

lemma step_keeps:
  assumes "\<exists>inst\<in>set (STOCK_INSTRUMENTS s). malformed inst"
  shows "STOCK_INSTRUMENTS (state_of (step env ev s)) = STOCK_INSTRUMENTS s
       \<and> sent (state_of (step env ev s)) = sent s"
proof (cases ev)
  case Init
  then show ?thesis
    using connectWebSocket_keeps [of env s] by (simp add: initDhanSocket_def)
next
  case (Open now)
  let ?s = "s\<lparr>ws := map_option (\<lambda>_. OPEN) (ws s), isConnecting := False, reconnectDelay := 5000\<rparr>"
  have "\<exists>inst\<in>set (STOCK_INSTRUMENTS ?s). malformed inst"
    using assms by simp
  from subscribe_malformed [OF this, of now] show ?thesis
    using Open by (simp add: on_open_def)
next
  case (Message d)
  then show ?thesis
    using handleMessage_keeps by simp
next
  case Err
  then show ?thesis
    by (simp add: on_error_def)
next
  case Close
  then show ?thesis
    by (simp add: on_close_def)
next
  case Timeout
  then show ?thesis
    using connectWebSocket_keeps
      [of env "s\<lparr>reconnectDelay := min (reconnectDelay s * (3 / 2)) 60000\<rparr>"]
    by (simp add: on_timeout_def)
next
  case ManualClose
  then show ?thesis
    using closeSocket_keeps by simp
next
  case (SseSubscribe i c)
  then show ?thesis
    using subscribeToTicks_keeps by simp
next
  case (SseUnsubscribe i)
  then show ?thesis
    by (simp add: unsubscribe_def)
qed

lemma run_keeps:
  assumes "\<exists>inst\<in>set (STOCK_INSTRUMENTS s). malformed inst"
  shows "STOCK_INSTRUMENTS (state_of (run env evs s)) = STOCK_INSTRUMENTS s
       \<and> sent (state_of (run env evs s)) = sent s"
  using assms
proof (induction evs arbitrary: s)
  case Nil
  then show ?case
    by simp
next
  case (Cons ev evs)
  note kept = step_keeps [OF Cons.prems, of env ev]
  show ?case
  proof (cases "step env ev s")
    case (Normal s1)
    with kept have k: "STOCK_INSTRUMENTS s1 = STOCK_INSTRUMENTS s" "sent s1 = sent s"
      by simp_all
    with Cons.prems have "\<exists>inst\<in>set (STOCK_INSTRUMENTS s1). malformed inst"
      by simp
    from Cons.IH [OF this] show ?thesis
      using k Normal by simp
  next
    case (Throws e s1)
    with kept show ?thesis
      by simp
  qed
qed

lemma module_load_errors:
  "thrown (module_load env autoInit insts heap)
   \<noteq> Some (Error ''Invalid Dhan instrument mapping'')"
  by (simp add: module_load_def initDhanSocket_def connectWebSocket_def validateEnv_def
        initial_state_def)

text \<open>
  Claim C9, as the code has it. Let the instrument list hold a malformed instrument.
  The subscription step throws \<open>Invalid Dhan instrument mapping\<close> exactly when the
  market is open and the socket is open, and it throws in the state it was called in:
  before any send. Otherwise it returns without sending. Whatever events occur, the state
  a run ends in, by returning or by throwing, has the send log it started with. Loading
  the module, which builds the lookup tables, never throws this error.
\<close>

theorem malformed_never_subscribed:
  assumes "\<exists>inst\<in>set (STOCK_INSTRUMENTS s). malformed inst"
  shows "subscribeToStockCodes now s
           = (if isMarketOpen now \<and> ws s = Some OPEN
              then Throws (Error ''Invalid Dhan instrument mapping'') s else Normal s)
       \<and> sent (state_of (run env evs s)) = sent s
       \<and> thrown (module_load env autoInit (STOCK_INSTRUMENTS s) heap)
           \<noteq> Some (Error ''Invalid Dhan instrument mapping'')"
  using subscribe_malformed [OF assms] run_keeps [OF assms] module_load_errors by blast

text \<open>
  The witness has an instrument that lacks only its segment: a socket that opens at 10:00
  IST throws with nothing sent, one that opens at 16:00 IST returns.
\<close>

theorem malformed_never_subscribed_witness:
  "(\<exists>inst\<in>set (STOCK_INSTRUMENTS (initial_state segmentless_instruments open_streams)).
      malformed inst)
   \<and> run sample_credentials [Init, Open (ist_instant 0 10 0)]
        (initial_state segmentless_instruments open_streams)
       = Throws (Error ''Invalid Dhan instrument mapping'')
           ((initial_state segmentless_instruments open_streams)
              \<lparr>ws := Some OPEN, isConnecting := False, reconnectDelay := 5000\<rparr>)
   \<and> sent (state_of (run sample_credentials [Init, Open (ist_instant 0 10 0)]
        (initial_state segmentless_instruments open_streams))) = []
   \<and> thrown (run sample_credentials [Init, Open (ist_instant 0 16 0)]
        (initial_state segmentless_instruments open_streams)) = None"
proof -
  let ?s = "initial_state segmentless_instruments open_streams"
  let ?s1 = "?s\<lparr>isConnecting := True, ws := Some CONNECTING\<rparr>"
  let ?s2 = "?s1\<lparr>ws := Some OPEN, isConnecting := False, reconnectDelay := 5000\<rparr>"
  have bad: "\<exists>inst\<in>set (STOCK_INSTRUMENTS ?s). malformed inst"
    by (simp add: initial_state_def segmentless_instruments_def malformed_def falsy_def)
  then have bad2: "\<exists>inst\<in>set (STOCK_INSTRUMENTS ?s2). malformed inst"
    by simp
  have init: "initDhanSocket sample_credentials ?s = Normal ?s1"
    using sample_credentials_set
    by (simp add: initDhanSocket_def connectWebSocket_def initial_state_def)
  have "ws ?s2 = Some OPEN"
    by simp
  then have "subscribeToStockCodes (ist_instant 0 10 0) ?s2
       = Throws (Error ''Invalid Dhan instrument mapping'') ?s2"
    "subscribeToStockCodes (ist_instant 0 16 0) ?s2 = Normal ?s2"
    using malformed_never_subscribed [OF bad2, of "ist_instant 0 10 0"]
      malformed_never_subscribed [OF bad2, of "ist_instant 0 16 0"]
      market_open_at_10 market_closed_at_16
    by simp_all
  moreover have "?s2 = ?s\<lparr>ws := Some OPEN, isConnecting := False, reconnectDelay := 5000\<rparr>"
    by (simp add: initial_state_def)
  moreover have "sent ?s = []"
    by (simp add: initial_state_def)
  ultimately show ?thesis
    using bad init malformed_never_subscribed [OF bad, of _ sample_credentials]
    by (simp add: on_open_def)
qed

text \<open>
  With an instrument that lacks its security id, the module loads and starts connecting,
  and a socket that opens at 16:00 IST throws nothing.
\<close>

theorem malformed_load_counterexample:
  "list_ex malformed malformed_instruments
   \<and> thrown (module_load sample_credentials True malformed_instruments open_streams) = None
   \<and> thrown (run sample_credentials [Init, Open (ist_instant 0 16 0)]
        (initial_state malformed_instruments open_streams)) = None"
  using market_closed_at_16
  by (simp add: malformed_instruments_def malformed_def falsy_def module_load_def
        initDhanSocket_def connectWebSocket_def validateEnv_def sample_credentials_def
        initial_state_def on_open_def subscribeToStockCodes_def)

end
